theory Spec2Isabelle
  imports Complex_Main "HOL-Library.Multiset"
begin


section \<open>Values and exceptions of the Python program\<close>

text \<open>
  The program (\<^verbatim>\<open>jupiter.py\<close>) reads JSON from the CoinGecko markets endpoint and works on
  what \<^verbatim>\<open>response.json()\<close> gives: dictionaries, lists, strings, numbers, booleans and
  \<^verbatim>\<open>None\<close>. A dictionary is an association list read with \<open>map_of\<close>. Numbers are exact
  rationals: the rounding of Python's floats, their infinities and NaN are not modelled, and
  a Python \<^verbatim>\<open>int\<close> and the \<^verbatim>\<open>float\<close> of the same value are the same number here.
  Strings are ASCII.
\<close>

datatype json =
    JNull
  | JBool bool
  | JNum rat
  | JStr string
  | JArr "json list"
  | JObj "(string \<times> json) list"

datatype error =
    KeyError string
  | TypeError
  | AttributeError
  | ZeroDivisionError

definition and_then :: "error + 'a \<Rightarrow> ('a \<Rightarrow> error + 'b) \<Rightarrow> error + 'b" where
  "and_then m f = (case m of Inl e \<Rightarrow> Inl e | Inr x \<Rightarrow> f x)"

text \<open>\<^verbatim>\<open>token[key]\<close>: KeyError on a dictionary without the key, TypeError on a value that
  is no dictionary (a list, a string, a number and \<^verbatim>\<open>None\<close> take no string subscript).\<close>

fun subscript :: "json \<Rightarrow> string \<Rightarrow> error + json" where
  "subscript (JObj d) k = (case map_of d k of None \<Rightarrow> Inl (KeyError k) | Some v \<Rightarrow> Inr v)"
| "subscript _ k = Inl TypeError"

text \<open>The operand of \<^verbatim>\<open><\<close>, \<^verbatim>\<open>>\<close> and \<^verbatim>\<open>/\<close> against a number: a number or a boolean
  (\<^verbatim>\<open>True\<close> is 1, \<^verbatim>\<open>False\<close> is 0); anything else raises TypeError.\<close>

fun as_number :: "json \<Rightarrow> error + rat" where
  "as_number (JNum r) = Inr r"
| "as_number (JBool b) = Inr (if b then 1 else 0)"
| "as_number _ = Inl TypeError"

text \<open>\<^verbatim>\<open>x / y\<close>, Python's true division.\<close>

definition truediv :: "json \<Rightarrow> json \<Rightarrow> error + rat" where
  "truediv x y =
     and_then (as_number x) (\<lambda>a.
     and_then (as_number y) (\<lambda>b.
       if b = 0 then Inl ZeroDivisionError else Inr (a / b)))"

text \<open>\<^verbatim>\<open>s.upper()\<close>: only a string has the method.\<close>

definition upper_char :: "char \<Rightarrow> char" where
  "upper_char c =
     (let n = (of_char c :: nat) in if 97 \<le> n \<and> n \<le> 122 then char_of (n - 32) else c)"

fun upper :: "json \<Rightarrow> error + string" where
  "upper (JStr s) = Inr (map upper_char s)"
| "upper _ = Inl AttributeError"

text \<open>\<^verbatim>\<open>x in xs\<close> for a list of strings: \<^verbatim>\<open>==\<close> holds between a JSON value and a string only
  when the value is that string.\<close>

fun is_in :: "json \<Rightarrow> string list \<Rightarrow> bool" where
  "is_in (JStr s) xs = List.member xs s"
| "is_in _ xs = False"

text \<open>\<^verbatim>\<open>for token in page_tokens\<close>: a list gives its elements, a dictionary its keys, a
  string its characters; the other values are not iterable.\<close>

fun iterate :: "json \<Rightarrow> error + json list" where
  "iterate (JArr xs) = Inr xs"
| "iterate (JObj d) = Inr (map (\<lambda>kv. JStr (fst kv)) d)"
| "iterate (JStr s) = Inr (map (\<lambda>c. JStr [c]) s)"
| "iterate _ = Inl TypeError"


section \<open>get_top_tokens\<close>

text \<open>
  The HTTP request is the collaborator: \<open>fetch page\<close> is what \<^verbatim>\<open>response.json()\<close> does for
  the request of that page, \<open>None\<close> when it raises ValueError. Pages 1 to 4 are requested in
  order; a ValueError returns the empty list at once.
\<close>

definition stablecoins :: "string list" where
  "stablecoins = [''usdt'', ''usdc'', ''dai'', ''busd'', ''ust'']"

text \<open>The condition of the comprehension (lines 30 to 32):
  \<^verbatim>\<open>isinstance(token, dict) and 'symbol' in token and token['symbol'] not in stablecoins\<close>.\<close>

fun keep_token :: "json \<Rightarrow> bool" where
  "keep_token (JObj d) =
     (case map_of d ''symbol'' of None \<Rightarrow> False | Some s \<Rightarrow> \<not> is_in s stablecoins)"
| "keep_token _ = False"

fun get_top_tokens_pages :: "(nat \<Rightarrow> json option) \<Rightarrow> nat list \<Rightarrow> json list \<Rightarrow> error + json list" where
  "get_top_tokens_pages fetch [] tokens = Inr tokens"
| "get_top_tokens_pages fetch (page # pages) tokens =
     (case fetch page of
        None \<Rightarrow> Inr []
      | Some page_tokens \<Rightarrow>
          and_then (iterate page_tokens) (\<lambda>ts.
            get_top_tokens_pages fetch pages (tokens @ filter keep_token ts)))"

definition get_top_tokens :: "(nat \<Rightarrow> json option) \<Rightarrow> error + json list" where
  "get_top_tokens fetch = get_top_tokens_pages fetch [1, 2, 3, 4] []"


section \<open>The metrics\<close>

text \<open>\<^verbatim>\<open>calculate_potential_gains\<close> (lines 39 to 42).\<close>

definition calculate_potential_gains :: "json \<Rightarrow> json \<Rightarrow> error + rat" where
  "calculate_potential_gains current_price ath_price =
     and_then (as_number current_price) (\<lambda>p.
       if p > 0 then truediv ath_price current_price else Inr 0)"

text \<open>Line 75: \<^verbatim>\<open>market_cap / volume if volume > 0 else 0\<close>.\<close>

definition mc_vol_ratio_of :: "json \<Rightarrow> json \<Rightarrow> error + rat" where
  "mc_vol_ratio_of market_cap volume =
     and_then (as_number volume) (\<lambda>v.
       if v > 0 then truediv market_cap volume else Inr 0)"


section \<open>The loop of main over the fetched tokens\<close>

record config =
  market_cap_min :: rat
  market_cap_max :: rat
  volume_min :: rat

text \<open>The dictionary appended to \<^verbatim>\<open>results\<close> (lines 82 to 92), one field for each key.\<close>

record row =
  Token_Name :: json
  Symbol :: string
  Current_Price :: json
  ATH :: json
  Potential_Gains :: rat
  Market_Cap :: json
  Volume :: json
  Price_Change_7D :: json
  MC_Volume_Ratio :: rat

text \<open>Line 81:
  \<^verbatim>\<open>market_cap_min < market_cap < market_cap_max and volume > volume_min and potential_gains > 1\<close>.
  The chain and the \<^verbatim>\<open>and\<close>s stop at the first comparison that is false.\<close>

definition passes_filters :: "config \<Rightarrow> json \<Rightarrow> json \<Rightarrow> rat \<Rightarrow> error + bool" where
  "passes_filters cfg market_cap volume potential_gains =
     and_then (as_number market_cap) (\<lambda>c.
       if \<not> market_cap_min cfg < c then Inr False
       else if \<not> c < market_cap_max cfg then Inr False
       else and_then (as_number volume) (\<lambda>v.
         if \<not> v > volume_min cfg then Inr False
         else Inr (potential_gains > 1)))"

text \<open>The body of the loop (lines 68 to 92): \<open>results\<close> goes in and comes out, with the
  row appended when the token passes.\<close>

definition loop_body :: "config \<Rightarrow> json \<Rightarrow> row list \<Rightarrow> error + row list" where
  "loop_body cfg token results =
     and_then (subscript token ''name'') (\<lambda>token_name.
     and_then (subscript token ''symbol'') (\<lambda>token_symbol.
     and_then (subscript token ''current_price'') (\<lambda>current_price.
     and_then (subscript token ''ath'') (\<lambda>ath_price.
     and_then (subscript token ''total_volume'') (\<lambda>volume.
     and_then (subscript token ''market_cap'') (\<lambda>market_cap.
     and_then (subscript token ''price_change_percentage_7d_in_currency'') (\<lambda>price_change_7d.
     and_then (mc_vol_ratio_of market_cap volume) (\<lambda>mc_vol_ratio.
     and_then (calculate_potential_gains current_price ath_price) (\<lambda>potential_gains.
     and_then (passes_filters cfg market_cap volume potential_gains) (\<lambda>ok.
       if ok then
         and_then (upper token_symbol) (\<lambda>sym.
           Inr (results @
             [\<lparr>Token_Name = token_name, Symbol = sym, Current_Price = current_price,
               ATH = ath_price, Potential_Gains = potential_gains, Market_Cap = market_cap,
               Volume = volume, Price_Change_7D = price_change_7d,
               MC_Volume_Ratio = mc_vol_ratio\<rparr>]))
       else Inr results))))))))))"

fun main_loop :: "config \<Rightarrow> json list \<Rightarrow> row list \<Rightarrow> error + row list" where
  "main_loop cfg [] results = Inr results"
| "main_loop cfg (token # top_tokens) results =
     and_then (loop_body cfg token results) (main_loop cfg top_tokens)"

definition main_results :: "config \<Rightarrow> json list \<Rightarrow> error + row list" where
  "main_results cfg top_tokens = main_loop cfg top_tokens []"


section \<open>The data frame, the three rankings and the consensus sets\<close>

text \<open>
  Line 95 builds the frame from \<^verbatim>\<open>results\<close> and line 102 adds the column \<^verbatim>\<open>Token\<close>,
  \<^verbatim>\<open>df["Token Name"] + " (" + df["Symbol"] + ")"\<close>. The model of the frame covers the
  cells the API's schema gives: every name a string, every 7-day change a number or
  \<^verbatim>\<open>None\<close> (NaN in the frame). For a frame with any other cell \<open>DataFrame\<close> is \<open>None\<close>:
  what pandas does there is not modelled.
\<close>

record frame_row = row +
  Token :: string

fun is_str :: "json \<Rightarrow> bool" where
  "is_str (JStr s) = True"
| "is_str _ = False"

fun str_of :: "json \<Rightarrow> string" where
  "str_of (JStr s) = s"
| "str_of _ = []"

fun number_or_nan :: "json \<Rightarrow> rat option" where
  "number_or_nan (JNum r) = Some r"
| "number_or_nan (JBool b) = Some (if b then 1 else 0)"
| "number_or_nan _ = None"

definition in_schema :: "row \<Rightarrow> bool" where
  "in_schema r \<longleftrightarrow>
     is_str (Token_Name r) \<and>
     (Price_Change_7D r = JNull \<or> number_or_nan (Price_Change_7D r) \<noteq> None)"

definition with_Token :: "row \<Rightarrow> frame_row" where
  "with_Token r =
     row.extend r \<lparr>Token = str_of (Token_Name r) @ '' ('' @ Symbol r @ '')''\<rparr>"

definition DataFrame :: "row list \<Rightarrow> frame_row list option" where
  "DataFrame results =
     (if list_all in_schema results then Some (map with_Token results) else None)"

text \<open>
  \<^verbatim>\<open>df.sort_values(by=..., ascending=...)\<close> on one column: the rows with a value in
  order of the column, then the rows with NaN in the order they had (\<^verbatim>\<open>na_position\<close> is
  \<^verbatim>\<open>'last'\<close> by default). Rows with equal values keep the order of the frame here; pandas'
  default sort promises no order among them. \<^verbatim>\<open>head(n)\<close> is the first \<open>n\<close> rows.
\<close>

definition sort_values :: "('r \<Rightarrow> rat option) \<Rightarrow> bool \<Rightarrow> 'r list \<Rightarrow> 'r list" where
  "sort_values by ascending df =
     sort_key (\<lambda>r. case by r of
                      Some v \<Rightarrow> (if ascending then v else - v)
                    | None \<Rightarrow> 0)
              (filter (\<lambda>r. by r \<noteq> None) df)
     @ filter (\<lambda>r. by r = None) df"

definition head :: "nat \<Rightarrow> 'r list \<Rightarrow> 'r list" where
  "head n df = take n df"

text \<open>Line 106.\<close>

definition top_potential_gains :: "frame_row list \<Rightarrow> frame_row list" where
  "top_potential_gains df = head 30 (sort_values (\<lambda>r. Some (Potential_Gains r)) False df)"

text \<open>Line 107: the column of the sorted frame is replaced, each value capped at 1000.\<close>

definition cap_potential_gains :: "frame_row list \<Rightarrow> frame_row list" where
  "cap_potential_gains df_sorted =
     map (\<lambda>r. r\<lparr>Potential_Gains := min (Potential_Gains r) 1000\<rparr>) df_sorted"

text \<open>Line 119.\<close>

definition top_price_change_7d :: "frame_row list \<Rightarrow> frame_row list" where
  "top_price_change_7d df =
     head 30 (sort_values (\<lambda>r. number_or_nan (Price_Change_7D r)) False df)"

text \<open>Line 131.\<close>

definition top_mc_volume :: "frame_row list \<Rightarrow> frame_row list" where
  "top_mc_volume df = head 30 (sort_values (\<lambda>r. Some (MC_Volume_Ratio r)) True df)"

text \<open>Line 142: \<^verbatim>\<open>set(a).intersection(b, c)\<close>.\<close>

definition in_all_plots :: "string list \<Rightarrow> string list \<Rightarrow> string list \<Rightarrow> string set" where
  "in_all_plots a b c = set a \<inter> (set b \<inter> set c)"

text \<open>Lines 152 to 156:
  \<^verbatim>\<open>set(a).intersection(b).union(set(b).intersection(c)).union(set(c).intersection(a))\<close>
  and then \<^verbatim>\<open>.difference(tokens_in_all_plots)\<close>.\<close>

definition in_two_plots ::
  "string list \<Rightarrow> string list \<Rightarrow> string list \<Rightarrow> string set \<Rightarrow> string set" where
  "in_two_plots a b c all_plots =
     (((set a \<inter> set b) \<union> (set b \<inter> set c)) \<union> (set c \<inter> set a)) - all_plots"

record charts =
  df_sorted :: "frame_row list"
  df_sorted_7d :: "frame_row list"
  df_sorted_mc_vol :: "frame_row list"
  tokens_in_all_plots :: "string set"
  tokens_in_two_plots :: "string set"

text \<open>Lines 105 to 156, for a frame that is not empty: what the three charts and the two
  selections are drawn from.\<close>

definition main_charts :: "frame_row list \<Rightarrow> charts" where
  "main_charts df =
     (let sorted_pg = cap_potential_gains (top_potential_gains df);
          sorted_7d = top_price_change_7d df;
          sorted_mc_vol = top_mc_volume df;
          all_plots = in_all_plots (map Token sorted_pg) (map Token sorted_7d)
                        (map Token sorted_mc_vol)
      in \<lparr>df_sorted = sorted_pg, df_sorted_7d = sorted_7d, df_sorted_mc_vol = sorted_mc_vol,
           tokens_in_all_plots = all_plots,
           tokens_in_two_plots =
             in_two_plots (map Token sorted_pg) (map Token sorted_7d)
               (map Token sorted_mc_vol) all_plots\<rparr>)"

text \<open>Lines 95 to 166: \<open>None\<close> in the result stands for the message that no token matches
  the filters (the frame is empty).\<close>

definition main_display :: "row list \<Rightarrow> charts option option" where
  "main_display results =
     (if results = [] then Some None
      else map_option (\<lambda>df. Some (main_charts df)) (DataFrame results))"

text \<open>The whole of main once the button is pressed, for the thresholds of the sliders and
  the responses of the API. The outer \<open>None\<close> of the display is a frame outside the model.\<close>

definition main :: "config \<Rightarrow> (nat \<Rightarrow> json option) \<Rightarrow> error + charts option option" where
  "main cfg fetch =
     and_then (get_top_tokens fetch) (\<lambda>top_tokens.
     and_then (main_results cfg top_tokens) (\<lambda>results.
       Inr (main_display results)))"


section \<open>Reference definitions for the claims\<close>

text \<open>
  The consensus sets as the specification words them, computed from the top 30 by potential
  gain before any cap is applied: \<open>all_three = A \<inter> B \<inter> C\<close> and
  \<open>exactly_two = ((A \<inter> B) \<union> (B \<inter> C) \<union> (C \<inter> A)) - all_three\<close>.
\<close>

definition uncapped_consensus :: "frame_row list \<Rightarrow> string set \<times> string set" where
  "uncapped_consensus df =
     (let a = map Token (top_potential_gains df);
          b = map Token (top_price_change_7d df);
          c = map Token (top_mc_volume df);
          all_three = set a \<inter> set b \<inter> set c
      in (all_three, ((set a \<inter> set b) \<union> (set b \<inter> set c) \<union> (set c \<inter> set a)) - all_three))"

text \<open>
  A row of \<^verbatim>\<open>results\<close> read again as a record of the API: each cell under the key the loop
  reads it from. It is what lets the loop run on its own output.
\<close>

definition token_of_row :: "row \<Rightarrow> json" where
  "token_of_row r =
     JObj [(''name'', Token_Name r), (''symbol'', JStr (Symbol r)),
           (''current_price'', Current_Price r), (''ath'', ATH r),
           (''total_volume'', Volume r), (''market_cap'', Market_Cap r),
           (''price_change_percentage_7d_in_currency'', Price_Change_7D r)]"

text \<open>The numeric fields the loop reads from a token (lines 70 to 74).\<close>

definition required_numeric_fields :: "string list" where
  "required_numeric_fields =
     [''current_price'', ''ath'', ''total_volume'', ''market_cap'',
      ''price_change_percentage_7d_in_currency'']"

text \<open>
  The scenario of the specification's testable properties: asset X with price 10, all-time
  high 50, volume 0, 7-day change 20 and market cap \<open>10\<^sup>9\<close>, under the thresholds 0,
  \<open>10\<^sup>1\<^sup>2\<close> and -1. Asset Y, with a potential gain above the cap of the chart and no
  7-day change, stands beside it.
\<close>

definition scenario_cfg :: config where
  "scenario_cfg = \<lparr>market_cap_min = 0, market_cap_max = 1000000000000, volume_min = - 1\<rparr>"

definition scenario_X :: json where
  "scenario_X =
     JObj [(''name'', JStr ''X''), (''symbol'', JStr ''x''), (''current_price'', JNum 10),
           (''ath'', JNum 50), (''total_volume'', JNum 0), (''market_cap'', JNum 1000000000),
           (''price_change_percentage_7d_in_currency'', JNum 20)]"

definition scenario_Y :: json where
  "scenario_Y =
     JObj [(''name'', JStr ''Y''), (''symbol'', JStr ''y''), (''current_price'', JNum 1),
           (''ath'', JNum 5000), (''total_volume'', JNum 100), (''market_cap'', JNum 500),
           (''price_change_percentage_7d_in_currency'', JNull)]"

definition scenario_rows :: "row list" where
  "scenario_rows =
     [\<lparr>Token_Name = JStr ''X'', Symbol = ''X'', Current_Price = JNum 10, ATH = JNum 50,
       Potential_Gains = 5, Market_Cap = JNum 1000000000, Volume = JNum 0,
       Price_Change_7D = JNum 20, MC_Volume_Ratio = 0\<rparr>,
      \<lparr>Token_Name = JStr ''Y'', Symbol = ''Y'', Current_Price = JNum 1, ATH = JNum 5000,
       Potential_Gains = 5000, Market_Cap = JNum 500, Volume = JNum 100,
       Price_Change_7D = JNull, MC_Volume_Ratio = 5\<rparr>]"

definition scenario_df :: "frame_row list" where
  "scenario_df = map with_Token scenario_rows"




section \<open>Auxiliary facts\<close>

lemma and_then_Inl [simp]: "and_then (Inl e) f = Inl e"
  by (simp add: and_then_def)

lemma and_then_Inr [simp]: "and_then (Inr x) f = f x"
  by (simp add: and_then_def)

lemma and_then_eq_Inr:
  "and_then m f = Inr y \<longleftrightarrow> (\<exists>x. m = Inr x \<and> f x = Inr y)"
  by (cases m) simp_all

lemma as_number_cases:
  obtains r where "as_number x = Inr r" | "as_number x = Inl TypeError"
  by (cases x) simp_all

lemma truediv_no_zero:
  "as_number y = Inr b \<Longrightarrow> b \<noteq> 0 \<Longrightarrow> truediv x y \<noteq> Inl ZeroDivisionError"
  by (cases x) (simp_all add: truediv_def)


section \<open>Facts about the normalizer and the loop\<close>



lemma upper_char_other:
  "\<not> (97 \<le> (of_char c :: nat) \<and> (of_char c :: nat) \<le> 122) \<Longrightarrow> upper_char c = c"
  unfolding upper_char_def Let_def by (rule if_not_P)

lemma upper_char_idem: "upper_char (upper_char c) = upper_char c"
proof (cases "97 \<le> (of_char c :: nat) \<and> (of_char c :: nat) \<le> 122")
  case True
  define n where "n = (of_char c :: nat)"
  from True have range: "97 \<le> n" "n \<le> 122" by (simp_all add: n_def)
  then have "n - 32 < 256" by arith
  then have rt: "(of_char (char_of (n - 32)) :: nat) = n - 32" by simp
  from range have out: "\<not> (97 \<le> n - 32 \<and> n - 32 \<le> 122)" by arith
  from range have once: "upper_char c = char_of (n - 32)"
    by (simp add: upper_char_def Let_def n_def)
  from out have "upper_char (char_of (n - 32)) = char_of (n - 32)"
    by (intro upper_char_other) (simp only: rt, simp)
  with once show ?thesis by simp
next
  case False
  then have "upper_char c = c" by (rule upper_char_other)
  then show ?thesis by simp
qed

lemma main_loop_append:
  "main_loop cfg (xs @ ys) acc = and_then (main_loop cfg xs acc) (main_loop cfg ys)"
proof (induction xs arbitrary: acc)
  case Nil
  show ?case by simp
next
  case (Cons x xs)
  show ?case by (cases "loop_body cfg x acc") (simp_all add: Cons.IH)
qed

lemma loop_body_missing_key:
  assumes "f \<in> set [''name'', ''symbol'', ''current_price'', ''ath'', ''total_volume'',
                    ''market_cap'', ''price_change_percentage_7d_in_currency'']"
    and "map_of d f = None"
  shows "\<exists>k. map_of d k = None \<and> loop_body cfg (JObj d) results = Inl (KeyError k)"
proof -
  let ?keys = "[''name'', ''symbol'', ''current_price'', ''ath'', ''total_volume'',
                ''market_cap'', ''price_change_percentage_7d_in_currency'']"
  show ?thesis
  proof (cases "map_of d ''name''")
    case None then show ?thesis by (auto simp: loop_body_def)
  next
    case n: (Some v1)
    show ?thesis
    proof (cases "map_of d ''symbol''")
      case None with n show ?thesis by (auto simp: loop_body_def)
    next
      case s: (Some v2)
      show ?thesis
      proof (cases "map_of d ''current_price''")
        case None with n s show ?thesis by (auto simp: loop_body_def)
      next
        case p: (Some v3)
        show ?thesis
        proof (cases "map_of d ''ath''")
          case None with n s p show ?thesis by (auto simp: loop_body_def)
        next
          case a: (Some v4)
          show ?thesis
          proof (cases "map_of d ''total_volume''")
            case None with n s p a show ?thesis by (auto simp: loop_body_def)
          next
            case v: (Some v5)
            show ?thesis
            proof (cases "map_of d ''market_cap''")
              case None with n s p a v show ?thesis by (auto simp: loop_body_def)
            next
              case c: (Some v6)
              show ?thesis
              proof (cases "map_of d ''price_change_percentage_7d_in_currency''")
                case None with n s p a v c show ?thesis by (auto simp: loop_body_def)
              next
                case (Some v7)
                with n s p a v c assms have False by auto
                then show ?thesis ..
              qed
            qed
          qed
        qed
      qed
    qed
  qed
qed

lemma passes_filters_True:
  "passes_filters cfg market_cap volume gains = Inr True
     \<Longrightarrow> \<exists>c v. as_number market_cap = Inr c \<and> market_cap_min cfg < c \<and>
               as_number volume = Inr v \<and> volume_min cfg < v"
  by (cases "as_number market_cap"; cases "as_number volume")
     (auto simp: passes_filters_def split: if_splits)



lemma upper_Inr: "upper s = Inr u \<Longrightarrow> \<exists>t. s = JStr t \<and> u = map upper_char t"
  by (cases s) simp_all

lemma loop_body_Inr:
  assumes "loop_body cfg token results = Inr rs"
  shows "rs = results \<or>
    (\<exists>r. rs = results @ [r] \<and>
         (\<forall>acc. loop_body cfg (token_of_row r) acc = Inr (acc @ [r])) \<and>
         mc_vol_ratio_of (Market_Cap r) (Volume r) = Inr (MC_Volume_Ratio r) \<and>
         (\<exists>c v. as_number (Market_Cap r) = Inr c \<and> market_cap_min cfg < c \<and>
                as_number (Volume r) = Inr v \<and> volume_min cfg < v))"
proof -
  from assms obtain nm sy price ath vol cap change ratio gains ok
    where ratio: "mc_vol_ratio_of cap vol = Inr ratio"
      and gains: "calculate_potential_gains price ath = Inr gains"
      and ok: "passes_filters cfg cap vol gains = Inr ok"
      and final: "(if ok then
         and_then (upper sy) (\<lambda>u.
           Inr (results @
             [\<lparr>Token_Name = nm, Symbol = u, Current_Price = price,
               ATH = ath, Potential_Gains = gains, Market_Cap = cap,
               Volume = vol, Price_Change_7D = change,
               MC_Volume_Ratio = ratio\<rparr>]))
       else Inr results) = Inr rs"
    unfolding loop_body_def and_then_eq_Inr by blast
  show ?thesis
  proof (cases ok)
    case False
    with final show ?thesis by simp
  next
    case True
    with final obtain u where u: "upper sy = Inr u"
      and rs: "rs = results @
             [\<lparr>Token_Name = nm, Symbol = u, Current_Price = price,
               ATH = ath, Potential_Gains = gains, Market_Cap = cap,
               Volume = vol, Price_Change_7D = change,
               MC_Volume_Ratio = ratio\<rparr>]"
      by (auto simp: and_then_eq_Inr)
    from u obtain t where t: "sy = JStr t" "u = map upper_char t"
      using upper_Inr by blast
    let ?r = "\<lparr>Token_Name = nm, Symbol = u, Current_Price = price,
               ATH = ath, Potential_Gains = gains, Market_Cap = cap,
               Volume = vol, Price_Change_7D = change,
               MC_Volume_Ratio = ratio\<rparr>"
    have again: "loop_body cfg (token_of_row ?r) acc = Inr (acc @ [?r])" for acc
      using ratio gains ok True t
      by (simp add: loop_body_def token_of_row_def upper_char_idem)
    from ok True have "passes_filters cfg cap vol gains = Inr True" by simp
    then obtain c v where "as_number cap = Inr c" "market_cap_min cfg < c"
        "as_number vol = Inr v" "volume_min cfg < v"
      using passes_filters_True by blast
    with rs again ratio show ?thesis by auto
  qed
qed

lemma main_loop_Inr:
  assumes "main_loop cfg tokens acc = Inr rs"
  shows "\<exists>new. rs = acc @ new \<and> length new \<le> length tokens \<and>
    (\<forall>r\<in>set new.
         (\<forall>acc'. loop_body cfg (token_of_row r) acc' = Inr (acc' @ [r])) \<and>
         mc_vol_ratio_of (Market_Cap r) (Volume r) = Inr (MC_Volume_Ratio r) \<and>
         (\<exists>c v. as_number (Market_Cap r) = Inr c \<and> market_cap_min cfg < c \<and>
                as_number (Volume r) = Inr v \<and> volume_min cfg < v))"
  using assms
proof (induction tokens arbitrary: acc)
  case Nil
  then show ?case by simp
next
  case (Cons token tokens)
  from Cons.prems obtain mid where body: "loop_body cfg token acc = Inr mid"
    and rest: "main_loop cfg tokens mid = Inr rs"
    by (auto simp: and_then_eq_Inr)
  from Cons.IH [OF rest] obtain new where new: "rs = mid @ new" "length new \<le> length tokens"
    "\<forall>r\<in>set new.
         (\<forall>acc'. loop_body cfg (token_of_row r) acc' = Inr (acc' @ [r])) \<and>
         mc_vol_ratio_of (Market_Cap r) (Volume r) = Inr (MC_Volume_Ratio r) \<and>
         (\<exists>c v. as_number (Market_Cap r) = Inr c \<and> market_cap_min cfg < c \<and>
                as_number (Volume r) = Inr v \<and> volume_min cfg < v)"
    by blast
  from loop_body_Inr [OF body] show ?case
  proof
    assume "mid = acc"
    with new show ?thesis by (intro exI [of _ new]) simp
  next
    assume "\<exists>r. mid = acc @ [r] \<and>
         (\<forall>acc. loop_body cfg (token_of_row r) acc = Inr (acc @ [r])) \<and>
         mc_vol_ratio_of (Market_Cap r) (Volume r) = Inr (MC_Volume_Ratio r) \<and>
         (\<exists>c v. as_number (Market_Cap r) = Inr c \<and> market_cap_min cfg < c \<and>
                as_number (Volume r) = Inr v \<and> volume_min cfg < v)"
    then obtain r where r: "mid = acc @ [r]"
         "\<forall>acc. loop_body cfg (token_of_row r) acc = Inr (acc @ [r])"
         "mc_vol_ratio_of (Market_Cap r) (Volume r) = Inr (MC_Volume_Ratio r)"
         "\<exists>c v. as_number (Market_Cap r) = Inr c \<and> market_cap_min cfg < c \<and>
                as_number (Volume r) = Inr v \<and> volume_min cfg < v"
      by blast
    with new show ?thesis by (intro exI [of _ "r # new"]) simp
  qed
qed

lemma main_loop_rerun:
  assumes "\<forall>r\<in>set rows. \<forall>acc. loop_body cfg (token_of_row r) acc = Inr (acc @ [r])"
  shows "main_loop cfg (map token_of_row rows) acc = Inr (acc @ rows)"
  using assms by (induction rows arbitrary: acc) simp_all


section \<open>Facts about sorting and the cap\<close>

lemma Token_cap [simp]: "map Token (cap_potential_gains xs) = map Token xs"
  by (simp add: cap_potential_gains_def)

lemma Token_set_cap [simp]: "Token ` set (cap_potential_gains xs) = Token ` set xs"
  by (simp add: cap_potential_gains_def image_image)

lemma main_charts_fields:
  "df_sorted (main_charts df) = cap_potential_gains (top_potential_gains df)"
  "df_sorted_7d (main_charts df) = top_price_change_7d df"
  "df_sorted_mc_vol (main_charts df) = top_mc_volume df"
  by (simp_all add: main_charts_def Let_def)

lemma mset_sort_values [simp]: "mset (sort_values by ascending df) = mset df"
proof -
  have "mset (filter (\<lambda>r. by r \<noteq> None) df) + mset (filter (\<lambda>r. by r = None) df) = mset df"
    by (induction df) simp_all
  then show ?thesis by (simp add: sort_values_def)
qed

lemma length_sort_values [simp]: "length (sort_values by ascending df) = length df"
  using mset_sort_values [of "by" ascending df] by (metis size_mset)

lemma set_sort_values [simp]: "set (sort_values by ascending df) = set df"
  using mset_sort_values [of "by" ascending df] by (metis set_mset_mset)

lemma sort_values_ascending:
  "sorted (map f (sort_values (\<lambda>r. Some (f r)) True df))"
  by (simp add: sort_values_def)

lemma sorted_uminus_iff: "sorted (map (\<lambda>r. - f r) xs) \<longleftrightarrow> sorted_wrt (\<ge>) (map (f :: 'a \<Rightarrow> rat) xs)"
  by (simp add: sorted_wrt_map sorted_map)

lemma sort_values_descending:
  "sorted_wrt (\<ge>) (map f (sort_values (\<lambda>r. Some (f r)) False df))"
proof -
  have "sorted (map (\<lambda>r. - f r) (sort_key (\<lambda>r. - f r) df))"
    by (rule sorted_sort_key)
  then show ?thesis by (simp add: sort_values_def sorted_uminus_iff)
qed

lemma sort_key_sorted_wrt: "sorted_wrt (\<lambda>r s. k r \<le> k s) (sort_key k xs)"
  using sorted_sort_key [of k xs] by (simp add: sorted_map)

lemma sort_values_nan_last:
  "sorted_wrt (\<lambda>x y. case x of None \<Rightarrow> y = None
                      | Some a \<Rightarrow> (case y of None \<Rightarrow> True | Some b \<Rightarrow> b \<le> a))
     (map by (sort_values by False df))"
proof -
  define k where "k = (\<lambda>r. case by r of Some v \<Rightarrow> (if False then v else - v) | None \<Rightarrow> (0::rat))"
  define present where "present = sort_key k (filter (\<lambda>r. by r \<noteq> None) df)"
  define missing where "missing = filter (\<lambda>r. by r = None) df"
  define R where "R = (\<lambda>r s. case by r of None \<Rightarrow> by s = None
                      | Some a \<Rightarrow> (case by s of None \<Rightarrow> True | Some b \<Rightarrow> b \<le> a))"
  have eq: "sort_values by False df = present @ missing"
    unfolding sort_values_def present_def missing_def k_def by (rule refl)
  have in_present: "\<exists>a. by r = Some a" if "r \<in> set present" for r
    using that by (auto simp: present_def)
  have in_missing: "by r = None" if "r \<in> set missing" for r
    using that by (simp add: missing_def)
  have "sorted_wrt (\<lambda>r s. k r \<le> k s) present"
    unfolding present_def by (rule sort_key_sorted_wrt)
  then have p: "sorted_wrt R present"
  proof (rule sorted_wrt_mono_rel [rotated])
    fix r s assume "r \<in> set present" "s \<in> set present" and le: "k r \<le> k s"
    then obtain a b where "by r = Some a" "by s = Some b"
      using in_present by blast
    with le show "R r s" by (simp add: R_def k_def)
  qed
  have m: "sorted_wrt R missing"
    by (rule sorted_wrt_mono_rel [of _ "\<lambda>r s. True"]) (simp_all add: R_def in_missing)
  have pm: "R r s" if "r \<in> set present" "s \<in> set missing" for r s
    using in_present [OF that(1)] in_missing [OF that(2)] by (auto simp: R_def)
  have "sorted_wrt R (present @ missing)"
    using p m pm by (simp add: sorted_wrt_append)
  then show ?thesis
    unfolding eq R_def by (simp only: sorted_wrt_map)
qed

lemma head_length [simp]: "length (head n df) = min n (length df)"
  by (simp add: head_def min.commute)

lemma head_all: "length df \<le> n \<Longrightarrow> head n df = df"
  by (simp add: head_def)

lemma sorted_wrt_head: "sorted_wrt R (map f df) \<Longrightarrow> sorted_wrt R (map f (head n df))"
  by (simp add: head_def take_map [symmetric])

lemma length_cap [simp]: "length (cap_potential_gains df) = length df"
  by (simp add: cap_potential_gains_def)

lemma mset_cap: "mset xs = mset ys \<Longrightarrow> mset (cap_potential_gains xs) = mset (cap_potential_gains ys)"
proof -
  assume "mset xs = mset ys"
  then have "image_mset (\<lambda>r. r\<lparr>Potential_Gains := min (Potential_Gains r) 1000\<rparr>) (mset xs)
    = image_mset (\<lambda>r. r\<lparr>Potential_Gains := min (Potential_Gains r) 1000\<rparr>) (mset ys)"
    by simp
  then show ?thesis by (simp add: cap_potential_gains_def)
qed

lemma cap_descending:
  "sorted_wrt (\<ge>) (map Potential_Gains df)
     \<Longrightarrow> sorted_wrt (\<ge>) (map Potential_Gains (cap_potential_gains df))"
proof -
  assume "sorted_wrt (\<ge>) (map Potential_Gains df)"
  then have "sorted_wrt (\<lambda>r s. Potential_Gains s \<le> Potential_Gains r) df"
    by (simp add: sorted_wrt_map)
  then have "sorted_wrt (\<lambda>r s. min (Potential_Gains s) 1000 \<le> min (Potential_Gains r) 1000) df"
    by (rule sorted_wrt_mono_rel [rotated]) (simp add: min_le_iff_disj)
  then show ?thesis
    by (simp add: cap_potential_gains_def sorted_wrt_map)
qed


section \<open>The metrics: potential gain and market cap to volume\<close>

text \<open>
  Claim C5. For a numeric price and all-time high, \<^verbatim>\<open>calculate_potential_gains\<close> returns
  \<open>ath / price\<close> when the price is positive, and it returns exactly 0 when the price
  is 0, whatever the all-time high is.
\<close>

theorem potential_gains_value:
  "(0 < price \<longrightarrow> calculate_potential_gains (JNum price) (JNum ath) = Inr (ath / price)) \<and>
   calculate_potential_gains (JNum 0) ath_price = Inr 0"
  by (simp add: calculate_potential_gains_def truediv_def)

theorem potential_gains_value_witness:
  "(0::rat) < 10 \<and> calculate_potential_gains (JNum 10) (JNum 50) = Inr 5 \<and>
   calculate_potential_gains (JNum 0) (JNum 50) = Inr 0"
  using potential_gains_value [of 10 50 "JNum 50"] by simp

text \<open>
  Claim C10. A price that is negative (or zero) gives potential gain 0 and a volume that is
  negative (or zero) gives ratio 0, whatever the numerator is, even one that could not be
  divided; and neither computation ever raises ZeroDivisionError, on any input: no division
  is evaluated with a denominator that is not positive.
\<close>

theorem nonpositive_denominator:
  "(price \<le> 0 \<longrightarrow> calculate_potential_gains (JNum price) ath_price = Inr 0) \<and>
   (vol \<le> 0 \<longrightarrow> mc_vol_ratio_of market_cap (JNum vol) = Inr 0) \<and>
   calculate_potential_gains current_price ath_price \<noteq> Inl ZeroDivisionError \<and>
   mc_vol_ratio_of market_cap volume \<noteq> Inl ZeroDivisionError"
proof (intro conjI impI)
  show "calculate_potential_gains current_price ath_price \<noteq> Inl ZeroDivisionError"
    by (rule as_number_cases [of current_price])
       (auto simp: calculate_potential_gains_def dest: truediv_no_zero [of _ _ ath_price])
  show "mc_vol_ratio_of market_cap volume \<noteq> Inl ZeroDivisionError"
    by (rule as_number_cases [of volume])
       (auto simp: mc_vol_ratio_of_def dest: truediv_no_zero [of _ _ market_cap])
qed (simp_all add: calculate_potential_gains_def mc_vol_ratio_of_def)

theorem nonpositive_denominator_witness:
  "(-2::rat) \<le> 0 \<and> calculate_potential_gains (JNum (-2)) JNull = Inr 0 \<and>
   (-3::rat) \<le> 0 \<and> mc_vol_ratio_of JNull (JNum (-3)) = Inr 0 \<and>
   calculate_potential_gains (JNum 0) (JNum 7) \<noteq> Inl ZeroDivisionError \<and>
   mc_vol_ratio_of (JNum 7) (JNum 0) \<noteq> Inl ZeroDivisionError"
  using nonpositive_denominator [of "-2" JNull "-3" JNull "JNum 0" "JNum 0"]
    nonpositive_denominator [of 0 "JNum 7" 0 "JNum 7" "JNum 0" "JNum 0"]
  by simp


section \<open>The frame of the loop's rows\<close>

lemma with_Token_fields [simp]:
  "Market_Cap (with_Token x) = Market_Cap x"
  "Volume (with_Token x) = Volume x"
  "MC_Volume_Ratio (with_Token x) = MC_Volume_Ratio x"
  "Potential_Gains (with_Token x) = Potential_Gains x"
  "Price_Change_7D (with_Token x) = Price_Change_7D x"
  by (simp_all add: with_Token_def row.defs)




lemma scenario_run: "main_results scenario_cfg [scenario_X, scenario_Y] = Inr scenario_rows"
  by code_simp



section \<open>Normalization: the stablecoin filter\<close>





section \<open>The threshold filter\<close>

text \<open>
  Claim C4. For a token whose fields are numbers, the body of the loop appends its row
  exactly when \<open>market_cap_min < market_cap < market_cap_max\<close>, \<open>volume > volume_min\<close> and
  \<open>potential_gains > 1\<close>, all four comparisons strict, and leaves \<^verbatim>\<open>results\<close> as it is
  otherwise: an asset exactly at a bound, or with potential gain exactly 1, is excluded.
\<close>

theorem threshold_filter_strict:
  assumes "map_of d ''name'' = Some name"
    and "map_of d ''symbol'' = Some (JStr symb)"
    and "map_of d ''current_price'' = Some (JNum price)"
    and "map_of d ''ath'' = Some (JNum ath)"
    and "map_of d ''total_volume'' = Some (JNum vol)"
    and "map_of d ''market_cap'' = Some (JNum cap)"
    and "map_of d ''price_change_percentage_7d_in_currency'' = Some change"
  shows "loop_body cfg (JObj d) results =
     Inr (if market_cap_min cfg < cap \<and> cap < market_cap_max cfg \<and> volume_min cfg < vol \<and>
             1 < (if 0 < price then ath / price else 0)
          then results @
            [\<lparr>Token_Name = name, Symbol = map upper_char symb, Current_Price = JNum price,
              ATH = JNum ath, Potential_Gains = (if 0 < price then ath / price else 0),
              Market_Cap = JNum cap, Volume = JNum vol, Price_Change_7D = change,
              MC_Volume_Ratio = (if 0 < vol then cap / vol else 0)\<rparr>]
          else results)"
  using assms
  by (simp add: loop_body_def mc_vol_ratio_of_def calculate_potential_gains_def truediv_def
        passes_filters_def)

theorem threshold_filter_strict_witness:
  "loop_body scenario_cfg scenario_X [] = Inr [hd scenario_rows] \<and>
   loop_body (scenario_cfg\<lparr>market_cap_min := 1000000000\<rparr>) scenario_X [] = Inr [] \<and>
   loop_body (scenario_cfg\<lparr>volume_min := 0\<rparr>) scenario_X [] = Inr []"
proof -
  let ?d = "[(''name'', JStr ''X''), (''symbol'', JStr ''x''), (''current_price'', JNum 10),
           (''ath'', JNum 50), (''total_volume'', JNum 0), (''market_cap'', JNum 1000000000),
           (''price_change_percentage_7d_in_currency'', JNum 20)]"
  have fields: "map_of ?d ''name'' = Some (JStr ''X'')"
    "map_of ?d ''symbol'' = Some (JStr ''x'')"
    "map_of ?d ''current_price'' = Some (JNum 10)"
    "map_of ?d ''ath'' = Some (JNum 50)"
    "map_of ?d ''total_volume'' = Some (JNum 0)"
    "map_of ?d ''market_cap'' = Some (JNum 1000000000)"
    "map_of ?d ''price_change_percentage_7d_in_currency'' = Some (JNum 20)"
    by simp_all
  have up: "upper_char CHR ''x'' = CHR ''X''" by code_simp
  note inst = threshold_filter_strict [OF fields]
  from inst [of scenario_cfg "[]"] inst [of "scenario_cfg\<lparr>market_cap_min := 1000000000\<rparr>" "[]"]
    inst [of "scenario_cfg\<lparr>volume_min := 0\<rparr>" "[]"]
  show ?thesis
    by (simp add: scenario_X_def scenario_cfg_def scenario_rows_def up)
qed

text \<open>
  Claim C7. The loop is idempotent and never lengthens its input: when it returns
  \<^verbatim>\<open>results\<close> for the fetched tokens, running it again on these rows (each read as a
  record of the API) returns the same rows, and there are at most as many rows as tokens.
\<close>

theorem threshold_filter_idempotent:
  assumes "main_results cfg top_tokens = Inr results"
  shows "main_results cfg (map token_of_row results) = Inr results \<and>
         length results \<le> length top_tokens"
proof -
  from assms have "main_loop cfg top_tokens [] = Inr results"
    by (simp add: main_results_def)
  from main_loop_Inr [OF this]
  have fixed: "\<forall>r\<in>set results. \<forall>acc. loop_body cfg (token_of_row r) acc = Inr (acc @ [r])"
    and len: "length results \<le> length top_tokens"
    by auto
  from main_loop_rerun [OF fixed, of "[]"] len show ?thesis
    by (simp add: main_results_def)
qed

theorem threshold_filter_idempotent_witness:
  "main_results scenario_cfg [scenario_X, scenario_Y] = Inr scenario_rows \<and>
   main_results scenario_cfg (map token_of_row scenario_rows) = Inr scenario_rows \<and>
   length scenario_rows \<le> length [scenario_X, scenario_Y]"
  using threshold_filter_idempotent [OF scenario_run] scenario_run by simp


section \<open>Missing fields\<close>

text \<open>
  Claim C9. When the loop reaches a record that lacks one of the numeric fields it reads,
  the subscript raises KeyError (the specification's MissingFieldError) for a key the
  record does not have. Nothing catches it: the loop, and with it the whole run of
  \<^verbatim>\<open>main\<close>, ends in that error, whatever records follow; the record is not skipped.
\<close>

theorem missing_field_is_fatal:
  assumes "f \<in> set required_numeric_fields"
    and "map_of d f = None"
    and "main_results cfg before = Inr reached"
  shows "\<exists>k. map_of d k = None \<and>
           loop_body cfg (JObj d) reached = Inl (KeyError k) \<and>
           main_results cfg (before @ JObj d # rest) = Inl (KeyError k) \<and>
           (get_top_tokens fetch = Inr (before @ JObj d # rest)
              \<longrightarrow> main cfg fetch = Inl (KeyError k))"
proof -
  from assms(1) have "f \<in> set [''name'', ''symbol'', ''current_price'', ''ath'',
      ''total_volume'', ''market_cap'', ''price_change_percentage_7d_in_currency'']"
    by (auto simp: required_numeric_fields_def)
  from loop_body_missing_key [OF this assms(2), of cfg reached]
  obtain k where k: "map_of d k = None"
    and body: "loop_body cfg (JObj d) reached = Inl (KeyError k)"
    by blast
  from assms(3) have before: "main_loop cfg before [] = Inr reached"
    by (simp add: main_results_def)
  have loop: "main_results cfg (before @ JObj d # rest) = Inl (KeyError k)"
    by (simp add: main_results_def main_loop_append before body)
  then have "get_top_tokens fetch = Inr (before @ JObj d # rest)
      \<longrightarrow> main cfg fetch = Inl (KeyError k)"
    by (simp add: main_def)
  with k body loop show ?thesis by blast
qed

theorem missing_field_is_fatal_witness:
  "''ath'' \<in> set required_numeric_fields \<and>
   map_of [(''name'', JStr ''Z''), (''symbol'', JStr ''z''), (''current_price'', JNum 2)] ''ath''
     = None \<and>
   main_results scenario_cfg [scenario_X] = Inr [hd scenario_rows] \<and>
   (\<exists>k. map_of [(''name'', JStr ''Z''), (''symbol'', JStr ''z''), (''current_price'', JNum 2)] k
           = None \<and>
        loop_body scenario_cfg
          (JObj [(''name'', JStr ''Z''), (''symbol'', JStr ''z''), (''current_price'', JNum 2)])
          [hd scenario_rows] = Inl (KeyError k) \<and>
        main_results scenario_cfg
          ([scenario_X] @
           JObj [(''name'', JStr ''Z''), (''symbol'', JStr ''z''), (''current_price'', JNum 2)]
           # [scenario_Y]) = Inl (KeyError k))"
proof -
  let ?d = "[(''name'', JStr ''Z''), (''symbol'', JStr ''z''), (''current_price'', JNum 2)]"
  have f: "''ath'' \<in> set required_numeric_fields"
    by (simp add: required_numeric_fields_def)
  have none: "map_of ?d ''ath'' = None" by simp
  have reach: "main_results scenario_cfg [scenario_X] = Inr [hd scenario_rows]"
    by code_simp
  from missing_field_is_fatal [OF f none reach, of "[scenario_Y]" "\<lambda>page. None"]
  have "\<exists>k. map_of ?d k = None \<and>
        loop_body scenario_cfg (JObj ?d) [hd scenario_rows] = Inl (KeyError k) \<and>
        main_results scenario_cfg ([scenario_X] @ JObj ?d # [scenario_Y]) = Inl (KeyError k)"
    by blast
  with f none reach show ?thesis by blast
qed


section \<open>The ratio of market cap to volume in the ranking\<close>





section \<open>The rankings and the consensus sets\<close>

text \<open>
  Claim C8. Each of the three rankings has \<open>min 30 n\<close> rows for a frame of \<open>n\<close> rows: never
  more than 30, and all of them when there are 30 or fewer; then the ranking holds exactly
  the rows of the frame (for potential gain, with the displayed value capped). Each ranking
  is in order: potential gain descending, 7-day change descending with the missing values
  last, ratio of market cap to volume ascending.
\<close>

theorem ranking_top_30:
  "length (df_sorted (main_charts df)) = min 30 (length df) \<and>
   length (df_sorted_7d (main_charts df)) = min 30 (length df) \<and>
   length (df_sorted_mc_vol (main_charts df)) = min 30 (length df) \<and>
   (length df \<le> 30 \<longrightarrow>
      mset (df_sorted (main_charts df)) = mset (cap_potential_gains df) \<and>
      mset (df_sorted_7d (main_charts df)) = mset df \<and>
      mset (df_sorted_mc_vol (main_charts df)) = mset df) \<and>
   sorted_wrt (\<ge>) (map Potential_Gains (df_sorted (main_charts df))) \<and>
   sorted_wrt (\<lambda>x y. case x of None \<Rightarrow> y = None
                      | Some a \<Rightarrow> (case y of None \<Rightarrow> True | Some b \<Rightarrow> b \<le> a))
     (map (\<lambda>r. number_or_nan (Price_Change_7D r)) (df_sorted_7d (main_charts df))) \<and>
   sorted (map MC_Volume_Ratio (df_sorted_mc_vol (main_charts df)))"
proof (intro conjI impI)
  show "length (df_sorted (main_charts df)) = min 30 (length df)"
    by (simp add: main_charts_fields top_potential_gains_def)
  show "length (df_sorted_7d (main_charts df)) = min 30 (length df)"
    by (simp add: main_charts_fields top_price_change_7d_def)
  show "length (df_sorted_mc_vol (main_charts df)) = min 30 (length df)"
    by (simp add: main_charts_fields top_mc_volume_def)
  show "sorted_wrt (\<ge>) (map Potential_Gains (df_sorted (main_charts df)))"
    unfolding main_charts_fields top_potential_gains_def
    by (intro cap_descending sorted_wrt_head sort_values_descending)
  show "sorted_wrt (\<lambda>x y. case x of None \<Rightarrow> y = None
                      | Some a \<Rightarrow> (case y of None \<Rightarrow> True | Some b \<Rightarrow> b \<le> a))
     (map (\<lambda>r. number_or_nan (Price_Change_7D r)) (df_sorted_7d (main_charts df)))"
    unfolding main_charts_fields top_price_change_7d_def
    by (intro sorted_wrt_head sort_values_nan_last)
  show "sorted (map MC_Volume_Ratio (df_sorted_mc_vol (main_charts df)))"
    unfolding main_charts_fields top_mc_volume_def
    by (intro sorted_wrt_head sort_values_ascending)
next
  assume small: "length df \<le> 30"
  show "mset (df_sorted (main_charts df)) = mset (cap_potential_gains df)"
    unfolding main_charts_fields top_potential_gains_def
    by (rule mset_cap) (simp add: head_all small)
  show "mset (df_sorted_7d (main_charts df)) = mset df"
    by (simp add: main_charts_fields top_price_change_7d_def head_all small)
  show "mset (df_sorted_mc_vol (main_charts df)) = mset df"
    by (simp add: main_charts_fields top_mc_volume_def head_all small)
qed

theorem ranking_top_30_witness:
  "length scenario_df \<le> 30 \<and>
   length (df_sorted (main_charts scenario_df)) = 2 \<and>
   mset (df_sorted_7d (main_charts scenario_df)) = mset scenario_df \<and>
   mset (df_sorted_mc_vol (main_charts scenario_df)) = mset scenario_df \<and>
   length (df_sorted (main_charts (replicate 31 (hd scenario_df)))) = 30 \<and>
   length (df_sorted_7d (main_charts (replicate 31 (hd scenario_df)))) = 30 \<and>
   length (df_sorted_mc_vol (main_charts (replicate 31 (hd scenario_df)))) = 30"
proof -
  have len: "length scenario_df = 2" by (simp add: scenario_df_def scenario_rows_def)
  from ranking_top_30 [of scenario_df] ranking_top_30 [of "replicate 31 (hd scenario_df)"] len
  show ?thesis by simp
qed

text \<open>
  Claim C3. For any three columns of display keys, and so for the three rankings of
  \<^verbatim>\<open>main\<close>, the first selection is \<open>A \<inter> B \<inter> C\<close>, the second is
  \<open>((A \<inter> B) \<union> (B \<inter> C) \<union> (C \<inter> A))\<close> without the first, and the two are disjoint.
\<close>

theorem consensus_sets:
  "in_all_plots a b c = set a \<inter> set b \<inter> set c \<and>
   in_two_plots a b c (in_all_plots a b c)
     = ((set a \<inter> set b) \<union> (set b \<inter> set c) \<union> (set c \<inter> set a)) - (set a \<inter> set b \<inter> set c) \<and>
   in_all_plots a b c \<inter> in_two_plots a b c (in_all_plots a b c) = {} \<and>
   tokens_in_all_plots (main_charts df)
     = in_all_plots (map Token (df_sorted (main_charts df)))
         (map Token (df_sorted_7d (main_charts df))) (map Token (df_sorted_mc_vol (main_charts df))) \<and>
   tokens_in_two_plots (main_charts df)
     = in_two_plots (map Token (df_sorted (main_charts df)))
         (map Token (df_sorted_7d (main_charts df))) (map Token (df_sorted_mc_vol (main_charts df)))
         (tokens_in_all_plots (main_charts df)) \<and>
   tokens_in_all_plots (main_charts df) \<inter> tokens_in_two_plots (main_charts df) = {}"
  by (auto simp: in_all_plots_def in_two_plots_def main_charts_def Let_def)

theorem consensus_sets_witness:
  "in_all_plots [''p'', ''q'', ''r''] [''q'', ''r''] [''r'', ''p''] = {''r''} \<and>
   in_two_plots [''p'', ''q'', ''r''] [''q'', ''r''] [''r'', ''p'']
     (in_all_plots [''p'', ''q'', ''r''] [''q'', ''r''] [''r'', ''p'']) = {''p'', ''q''} \<and>
   tokens_in_all_plots (main_charts scenario_df) \<inter> tokens_in_two_plots (main_charts scenario_df)
     = {}"
proof -
  note inst =
    consensus_sets [of "[''p'', ''q'', ''r'']" "[''q'', ''r'']" "[''r'', ''p'']" scenario_df]
  have "in_all_plots [''p'', ''q'', ''r''] [''q'', ''r''] [''r'', ''p'']
      = set [''p'', ''q'', ''r''] \<inter> set [''q'', ''r''] \<inter> set [''r'', ''p'']"
    by (rule inst [THEN conjunct1])
  also have "\<dots> = {''r''}"
    by code_simp
  finally have all_three: "in_all_plots [''p'', ''q'', ''r''] [''q'', ''r''] [''r'', ''p''] = {''r''}" .
  have "in_two_plots [''p'', ''q'', ''r''] [''q'', ''r''] [''r'', ''p'']
      (in_all_plots [''p'', ''q'', ''r''] [''q'', ''r''] [''r'', ''p''])
    = ((set [''p'', ''q'', ''r''] \<inter> set [''q'', ''r'']) \<union>
       (set [''q'', ''r''] \<inter> set [''r'', ''p'']) \<union> (set [''r'', ''p''] \<inter> set [''p'', ''q'', ''r'']))
      - (set [''p'', ''q'', ''r''] \<inter> set [''q'', ''r''] \<inter> set [''r'', ''p''])"
    by (rule inst [THEN conjunct2, THEN conjunct1])
  also have "\<dots> = {''p'', ''q''}"
    by code_simp
  finally have two: "in_two_plots [''p'', ''q'', ''r''] [''q'', ''r''] [''r'', ''p'']
      (in_all_plots [''p'', ''q'', ''r''] [''q'', ''r''] [''r'', ''p'']) = {''p'', ''q''}" .
  have "tokens_in_all_plots (main_charts scenario_df)
      \<inter> tokens_in_two_plots (main_charts scenario_df) = {}"
    by (rule inst [THEN conjunct2, THEN conjunct2, THEN conjunct2, THEN conjunct2,
          THEN conjunct2])
  with all_three two show ?thesis by (intro conjI)
qed

text \<open>
  Claim C2. The cap at 1000 is applied to the column of the sorted frame after the top 30
  are taken: the displayed rows are the top 30 by the uncapped potential gain, in the same
  order, with each value replaced by its minimum with 1000. The column of display keys is
  untouched, so the two selections of \<^verbatim>\<open>main\<close> are the consensus sets computed from the
  uncapped top 30.
\<close>

theorem cap_after_ranking:
  "(tokens_in_all_plots (main_charts df), tokens_in_two_plots (main_charts df)) = uncapped_consensus df \<and>
   map Token (df_sorted (main_charts df)) = map Token (top_potential_gains df) \<and>
   map Potential_Gains (df_sorted (main_charts df))
     = map (\<lambda>r. min (Potential_Gains r) 1000) (top_potential_gains df)"
proof (intro conjI)
  show "(tokens_in_all_plots (main_charts df), tokens_in_two_plots (main_charts df))
          = uncapped_consensus df"
    by (simp add: main_charts_def Let_def uncapped_consensus_def in_all_plots_def
          in_two_plots_def Int_assoc)
  show "map Token (df_sorted (main_charts df)) = map Token (top_potential_gains df)"
    by (simp add: main_charts_fields)
  show "map Potential_Gains (df_sorted (main_charts df))
          = map (\<lambda>r. min (Potential_Gains r) 1000) (top_potential_gains df)"
    by (simp add: main_charts_fields cap_potential_gains_def)
qed

theorem cap_after_ranking_witness:
  "(tokens_in_all_plots (main_charts scenario_df), tokens_in_two_plots (main_charts scenario_df))
     = ({''X (X)'', ''Y (Y)''}, {}) \<and>
   map Token (df_sorted (main_charts scenario_df)) = [''Y (Y)'', ''X (X)''] \<and>
   map Potential_Gains (top_potential_gains scenario_df) = [5000, 5] \<and>
   map Potential_Gains (df_sorted (main_charts scenario_df)) = [1000, 5]"
proof -
  have "uncapped_consensus scenario_df = ({''X (X)'', ''Y (Y)''}, {})"
    by code_simp
  moreover have "map Token (top_potential_gains scenario_df) = [''Y (Y)'', ''X (X)'']"
    by code_simp
  moreover have "map Potential_Gains (top_potential_gains scenario_df) = [5000, 5]"
    by code_simp
  moreover have "map (\<lambda>r. min (Potential_Gains r) 1000) (top_potential_gains scenario_df)
      = [1000, 5]"
    by code_simp
  ultimately show ?thesis
    using cap_after_ranking [of scenario_df] by simp
qed

end
